theory Spec2Isabelle
  imports Main
begin

section \<open>Strings\<close>

text \<open>
  Python strings are modelled as \<^typ>\<open>string\<close>, read as the UTF-8 bytes of the text;
  a substring test on code points and the same test on the UTF-8 bytes agree. The two
  symbols that start every message of the script are therefore byte sequences.
\<close>

definition cross_mark :: string where
  \<comment> \<open>U+274C\<close>
  "cross_mark = [CHR 0xE2, CHR 0x9D, CHR 0x8C]"

definition warning_sign :: string where
  \<comment> \<open>U+26A0 U+FE0F\<close>
  "warning_sign = [CHR 0xE2, CHR 0x9A, CHR 0xA0, CHR 0xEF, CHR 0xB8, CHR 0x8F]"

text \<open>\<^verbatim>\<open>p in s\<close> on strings: \<open>p\<close> occurs in \<open>s\<close> as a contiguous block.\<close>

fun starts_with :: "string \<Rightarrow> string \<Rightarrow> bool" where
  "starts_with [] s = True"
| "starts_with (p # ps) [] = False"
| "starts_with (p # ps) (c # cs) = (p = c \<and> starts_with ps cs)"

fun str_in :: "string \<Rightarrow> string \<Rightarrow> bool" where
  "str_in p [] = (p = [])"
| "str_in p (c # cs) = (starts_with p (c # cs) \<or> str_in p cs)"

text \<open>
  \<^verbatim>\<open>str.lower()\<close>, on the ASCII letters: the bytes \<open>A\<close> to \<open>Z\<close> move to \<open>a\<close> to \<open>z\<close>,
  every other byte stays. Python also lowers letters outside ASCII. Only two of them
  give an ASCII letter: U+212A gives \<open>k\<close>, which is in none of the patterns the script
  looks for in lowered text, and U+0130 gives \<open>i\<close> followed by U+0307, which no pattern
  has after an \<open>i\<close>. So the scan of the model and the scan of the script find the same
  patterns in every text.
\<close>

definition lower_char :: "char \<Rightarrow> char" where
  "lower_char c =
     (let n = (of_char c :: nat) in if 65 \<le> n \<and> n \<le> 90 then char_of (n + 32) else c)"

definition lower :: "string \<Rightarrow> string" where
  "lower s = map lower_char s"

text \<open>\<^verbatim>\<open>sep.join(xs)\<close>\<close>

fun join :: "string \<Rightarrow> string list \<Rightarrow> string" where
  "join sep [] = []"
| "join sep [x] = x"
| "join sep (x # y # ys) = x @ sep @ join sep (y # ys)"

text \<open>
  \<^verbatim>\<open>oct(n)\<close> for a non-negative \<open>n\<close>: the prefix \<open>0o\<close> and the octal digits, most
  significant first.
\<close>

definition digit_char :: "nat \<Rightarrow> char" where
  "digit_char d = char_of (48 + d)"

function oct_digits :: "nat \<Rightarrow> string" where
  "oct_digits n =
     (if n < 8 then [digit_char n] else oct_digits (n div 8) @ [digit_char (n mod 8)])"
  by pat_completeness auto
termination
  by (relation "measure id") auto

definition oct :: "nat \<Rightarrow> string" where
  "oct n = ''0o'' @ oct_digits n"

text \<open>The slice \<^verbatim>\<open>s[-3:]\<close>: the last three characters, or all of \<open>s\<close> when it is shorter.\<close>

definition last3 :: "string \<Rightarrow> string" where
  "last3 s = drop (length s - 3) s"

section \<open>The working directory\<close>

text \<open>
  The script looks at paths relative to the working directory. A path names nothing, a
  regular file (with its \<^verbatim>\<open>st_mode\<close> and its text) or a directory (with its
  \<^verbatim>\<open>st_mode\<close>). Every regular file of the model is readable text; ownership, symbolic
  links and encodings are not modelled.
\<close>

datatype node = File nat string | Dir nat

type_synonym filesystem = "string \<Rightarrow> node option"

datatype error = IsADirectoryError | FileNotFoundError | IndexError

text \<open>\<^verbatim>\<open>Path(p).exists()\<close>: true of files and of directories.\<close>

definition path_exists :: "filesystem \<Rightarrow> string \<Rightarrow> bool" where
  "path_exists fs p = (case fs p of None \<Rightarrow> False | Some n \<Rightarrow> True)"

text \<open>\<^verbatim>\<open>os.stat(p).st_mode\<close>, called only on a path that exists (0 stands in otherwise).\<close>

definition st_mode :: "filesystem \<Rightarrow> string \<Rightarrow> nat" where
  "st_mode fs p = (case fs p of Some (File m t) \<Rightarrow> m | Some (Dir m) \<Rightarrow> m | None \<Rightarrow> 0)"

text \<open>
  \<^verbatim>\<open>Path(p).read_text()\<close>: the text of a regular file; a directory raises
  \<^verbatim>\<open>IsADirectoryError\<close>, a path that names nothing \<^verbatim>\<open>FileNotFoundError\<close> (the
  script reads a path only after \<^verbatim>\<open>exists()\<close> was true of it).
\<close>

definition read_text :: "filesystem \<Rightarrow> string \<Rightarrow> error + string" where
  "read_text fs p =
     (case fs p of Some (File m t) \<Rightarrow> Inr t | Some (Dir m) \<Rightarrow> Inl IsADirectoryError
      | None \<Rightarrow> Inl FileNotFoundError)"

text \<open>
  \<^verbatim>\<open>Path(p).mkdir(parents=True, exist_ok=True)\<close> for a path of one component: a new
  directory where nothing was, no change where something is. The mode of a new
  directory is \<open>0o40755\<close> (the default umask).
\<close>

definition mkdir :: "filesystem \<Rightarrow> string \<Rightarrow> filesystem" where
  "mkdir fs p = (if path_exists fs p then fs else fs(p \<mapsto> Dir 16877))"

text \<open>\<^verbatim>\<open>Path(p).is_dir()\<close>, used in the statements only.\<close>

definition is_dir :: "filesystem \<Rightarrow> string \<Rightarrow> bool" where
  "is_dir fs p = (case fs p of Some (Dir m) \<Rightarrow> True | Some (File m t) \<Rightarrow> False | None \<Rightarrow> False)"

text \<open>\<^verbatim>\<open>Path(d) / name\<close>\<close>

definition path_join :: "string \<Rightarrow> string \<Rightarrow> string" where
  "path_join d name = d @ ''/'' @ name"

section \<open>The checker\<close>

record checker =
  issues :: "string list"
  warnings :: "string list"
  checks_passed :: int
  checks_failed :: int

text \<open>\<^verbatim>\<open>SecurityChecker.__init__\<close>\<close>

definition SecurityChecker :: checker where
  "SecurityChecker = \<lparr>issues = [], warnings = [], checks_passed = 0, checks_failed = 0\<rparr>"

text \<open>
  The script changes the checker by three groups of statements, written out at each
  place: \<^verbatim>\<open>self.issues.append(m); self.checks_failed += 1\<close>, then
  \<^verbatim>\<open>self.warnings.append(m)\<close>, then \<^verbatim>\<open>self.checks_passed += 1\<close>. Printing to
  standard output is left out.
\<close>

definition issue :: "string \<Rightarrow> checker \<Rightarrow> checker" where
  "issue m s = s\<lparr>issues := issues s @ [m], checks_failed := checks_failed s + 1\<rparr>"

definition warn :: "string \<Rightarrow> checker \<Rightarrow> checker" where
  "warn m s = s\<lparr>warnings := warnings s @ [m]\<rparr>"

definition passed :: "checker \<Rightarrow> checker" where
  "passed s = s\<lparr>checks_passed := checks_passed s + 1\<rparr>"

text \<open>
  A method that raises leaves the checker as it was at that moment: the result of a method
  is the exception with that checker (\<open>Inl\<close>), or the checker at its return (\<open>Inr\<close>).
\<close>

type_synonym outcome = "error \<times> checker + checker"

subsection \<open>\<^verbatim>\<open>check_env_file\<close>\<close>

definition required_vars :: "string list" where
  "required_vars =
     [''SECRET_KEY'', ''DB_PASSWORD'', ''DB_NAME'', ''DB_USER'',
      ''ALLOWED_HOSTS'', ''DEBUG'', ''DJANGO_ENV'']"

definition weak_patterns :: "(string \<times> string) list" where
  "weak_patterns =
     [(''SECRET_KEY'', ''django-insecure''),
      (''DB_PASSWORD'', ''postgres''),
      (''DEBUG'', ''True''),
      (''SECRET_KEY'', ''change''),
      (''SECRET_KEY'', ''your-secret'')]"

definition env_missing_msg :: string where
  "env_missing_msg = cross_mark @ '' .env file not found''"

definition world_readable_msg :: string where
  "world_readable_msg =
     warning_sign @ ''  .env file is world-readable (consider chmod 600)''"

definition missing_vars_msg :: "string list \<Rightarrow> string" where
  "missing_vars_msg vs =
     cross_mark @ '' Missing environment variables: '' @ join '', '' vs"

definition weak_msg :: "string \<Rightarrow> string" where
  "weak_msg var = warning_sign @ ''  Possible weak/default value for '' @ var"

text \<open>The loop over \<^verbatim>\<open>required_vars\<close> that collects \<^verbatim>\<open>missing_vars\<close>.\<close>

fun missing_vars :: "string \<Rightarrow> string list \<Rightarrow> string list" where
  "missing_vars env_content [] = []"
| "missing_vars env_content (var # rest) =
     (if \<not> str_in (var @ ''='') env_content then var # missing_vars env_content rest
      else missing_vars env_content rest)"

text \<open>The loop over \<^verbatim>\<open>weak_patterns\<close>.\<close>

fun weak_scan :: "string \<Rightarrow> (string \<times> string) list \<Rightarrow> checker \<Rightarrow> checker" where
  "weak_scan env_content [] s = s"
| "weak_scan env_content ((var, pattern) # rest) s =
     weak_scan env_content rest
       (if str_in (lower pattern) (lower env_content) then warn (weak_msg var) s else s)"

definition check_env_file :: "filesystem \<Rightarrow> checker \<Rightarrow> outcome" where
  "check_env_file fs s =
     (if \<not> path_exists fs ''.env'' then Inr (issue env_missing_msg s)
      else
        let perms = last3 (oct (st_mode fs ''.env'')) in
        if length perms \<le> 2 then Inl (IndexError, s)
        else
          let s1 = (if perms ! 2 \<noteq> CHR ''0'' then warn world_readable_msg s else s) in
          case read_text fs ''.env'' of
            Inl e \<Rightarrow> Inl (e, s1)
          | Inr env_content \<Rightarrow>
              let missing = missing_vars env_content required_vars;
                  s2 = (if missing \<noteq> [] then issue (missing_vars_msg missing) s1
                        else passed s1)
              in Inr (weak_scan env_content weak_patterns s2))"

subsection \<open>\<^verbatim>\<open>check_ssl_certificates\<close>\<close>

definition ssl_dir_msg :: string where
  "ssl_dir_msg = warning_sign @ ''  nginx_ssl directory not found''"

definition cert_msg :: string where
  "cert_msg = cross_mark @ '' SSL certificate (fullchain.pem) not found''"

definition key_msg :: string where
  "key_msg = cross_mark @ '' SSL private key (privkey.pem) not found''"

definition check_ssl_certificates :: "filesystem \<Rightarrow> checker \<Rightarrow> checker" where
  "check_ssl_certificates fs s =
     (if \<not> path_exists fs ''nginx_ssl'' then warn ssl_dir_msg s
      else
        let cert_file = path_join ''nginx_ssl'' ''fullchain.pem'';
            key_file = path_join ''nginx_ssl'' ''privkey.pem'';
            s1 = (if \<not> path_exists fs cert_file then issue cert_msg s else passed s)
        in if \<not> path_exists fs key_file then issue key_msg s1 else passed s1)"

subsection \<open>\<^verbatim>\<open>check_docker_files\<close>\<close>

definition required_files :: "string list" where
  "required_files =
     [''Dockerfile.prod'', ''docker-compose.prod.yml'', ''entrypoint.prod.sh'',
      ''nginx.prod.conf'']"

definition file_msg :: "string \<Rightarrow> string" where
  "file_msg file = cross_mark @ '' Required file not found: '' @ file"

fun docker_loop :: "filesystem \<Rightarrow> string list \<Rightarrow> checker \<Rightarrow> checker" where
  "docker_loop fs [] s = s"
| "docker_loop fs (file # rest) s =
     docker_loop fs rest
       (if \<not> path_exists fs file then issue (file_msg file) s else passed s)"

definition check_docker_files :: "filesystem \<Rightarrow> checker \<Rightarrow> checker" where
  "check_docker_files fs s = docker_loop fs required_files s"

subsection \<open>\<^verbatim>\<open>check_directory_structure\<close>\<close>

definition required_dirs :: "string list" where
  "required_dirs = [''logs'', ''db_backups'', ''nginx_ssl'']"

definition dir_msg :: "string \<Rightarrow> string" where
  "dir_msg dir_name =
     warning_sign @ ''  Directory not found: '' @ dir_name @ '' (will be created)''"

text \<open>The loop creates directories, so it returns the working directory as well.\<close>

fun dir_loop :: "string list \<Rightarrow> checker \<times> filesystem \<Rightarrow> checker \<times> filesystem" where
  "dir_loop [] (s, fs) = (s, fs)"
| "dir_loop (dir_name # rest) (s, fs) =
     dir_loop rest
       (if \<not> path_exists fs dir_name then (warn (dir_msg dir_name) s, mkdir fs dir_name)
        else (passed s, fs))"

definition check_directory_structure ::
  "checker \<times> filesystem \<Rightarrow> checker \<times> filesystem" where
  "check_directory_structure = dir_loop required_dirs"

subsection \<open>\<^verbatim>\<open>check_gitignore\<close>\<close>

definition sensitive_patterns :: "string list" where
  "sensitive_patterns = [''.env'', ''*.pem'', ''*.key'', ''db_backups'', ''logs'']"

definition gitignore_missing_msg :: string where
  "gitignore_missing_msg = warning_sign @ ''  .gitignore not found''"

definition gitignore_patterns_msg :: "string list \<Rightarrow> string" where
  "gitignore_patterns_msg ms =
     warning_sign @ ''  Missing patterns in .gitignore: '' @ join '', '' ms"

text \<open>
  The loop shared in shape by \<^verbatim>\<open>check_gitignore\<close> and \<^verbatim>\<open>check_security_headers\<close>:
  the entries of a fixed list that do not occur in the text, in the list's order.
\<close>

fun missing_in :: "string \<Rightarrow> string list \<Rightarrow> string list" where
  "missing_in content [] = []"
| "missing_in content (pattern # rest) =
     (if \<not> str_in pattern content then pattern # missing_in content rest
      else missing_in content rest)"

definition check_gitignore :: "filesystem \<Rightarrow> checker \<Rightarrow> outcome" where
  "check_gitignore fs s =
     (if \<not> path_exists fs ''.gitignore'' then Inr (warn gitignore_missing_msg s)
      else
        case read_text fs ''.gitignore'' of
          Inl e \<Rightarrow> Inl (e, s)
        | Inr content \<Rightarrow>
            let missing = missing_in content sensitive_patterns
            in Inr (if missing \<noteq> [] then warn (gitignore_patterns_msg missing) s
                    else passed s))"

subsection \<open>\<^verbatim>\<open>check_python_compiled\<close>\<close>

definition build_script_msg :: string where
  "build_script_msg = warning_sign @ ''  build_secure.py not found''"

definition check_python_compiled :: "filesystem \<Rightarrow> checker \<Rightarrow> checker" where
  "check_python_compiled fs s =
     (if path_exists fs ''build_secure.py'' then passed s else warn build_script_msg s)"

subsection \<open>\<^verbatim>\<open>check_security_headers\<close>\<close>

definition security_headers :: "string list" where
  "security_headers =
     [''X-Frame-Options'', ''X-Content-Type-Options'', ''X-XSS-Protection'',
      ''Strict-Transport-Security'']"

definition headers_msg :: "string list \<Rightarrow> string" where
  "headers_msg ms = warning_sign @ ''  Missing security headers: '' @ join '', '' ms"

definition check_security_headers :: "filesystem \<Rightarrow> checker \<Rightarrow> outcome" where
  "check_security_headers fs s =
     (if \<not> path_exists fs ''nginx.prod.conf'' then Inr s
      else
        case read_text fs ''nginx.prod.conf'' of
          Inl e \<Rightarrow> Inl (e, s)
        | Inr content \<Rightarrow>
            let missing = missing_in content security_headers
            in Inr (if missing \<noteq> [] then warn (headers_msg missing) s else passed s))"

subsection \<open>\<^verbatim>\<open>print_summary\<close> and \<^verbatim>\<open>main\<close>\<close>

text \<open>The value \<^verbatim>\<open>print_summary\<close> returns; the three branches are the three messages.\<close>

definition print_summary :: "checker \<Rightarrow> int" where
  "print_summary s =
     (if issues s = [] \<and> warnings s = [] then 0
      else if issues s = [] then 0
      else 1)"

text \<open>
  \<^verbatim>\<open>main\<close> runs the seven checks in order on one checker and returns what
  \<^verbatim>\<open>print_summary\<close> returns. The model also returns the checker and the working
  directory at the end. An exception of a check ends the run there.
\<close>

definition main :: "filesystem \<Rightarrow> error \<times> checker + int \<times> checker \<times> filesystem" where
  "main fs =
     (case check_env_file fs SecurityChecker of
        Inl x \<Rightarrow> Inl x
      | Inr s1 \<Rightarrow>
          (let s2 = check_ssl_certificates fs s1;
               s3 = check_docker_files fs s2;
               (s4, fs') = check_directory_structure (s3, fs)
           in (case check_gitignore fs' s4 of
                 Inl x \<Rightarrow> Inl x
               | Inr s5 \<Rightarrow>
                   (let s6 = check_python_compiled fs' s5
                    in (case check_security_headers fs' s6 of
                          Inl x \<Rightarrow> Inl x
                        | Inr s7 \<Rightarrow> Inr (print_summary s7, s7, fs'))))))"

text \<open>
  \<^verbatim>\<open>sys.exit(main())\<close>: the exit status of the process is the value of \<^verbatim>\<open>main\<close>; an
  exception that nothing catches ends the process with status 1.
\<close>

definition exit_status :: "filesystem \<Rightarrow> int" where
  "exit_status fs = (case main fs of Inl x \<Rightarrow> 1 | Inr (code, s, fs') \<Rightarrow> code)"

text \<open>The checker a method leaves behind, whether it returned or raised.\<close>

definition checker_of :: "outcome \<Rightarrow> checker" where
  "checker_of r = (case r of Inl (e, s) \<Rightarrow> s | Inr s \<Rightarrow> s)"

text \<open>The checker when the run ends, by return or by exception.\<close>

definition final_checker :: "filesystem \<Rightarrow> checker" where
  "final_checker fs = (case main fs of Inl (e, s) \<Rightarrow> s | Inr (code, s, fs') \<Rightarrow> s)"

section \<open>Predicates of the statements\<close>

text \<open>The failed counter and the issues list agree: one failed check for each issue.\<close>

definition counts_agree :: "checker \<Rightarrow> bool" where
  "counts_agree s = (checks_failed s = int (length (issues s)))"

text \<open>
  Every path the script looks for is there: the environment file, the certificate
  directory and its two files, the four deployment files, the three directories, the
  ignore-file and the build script.
\<close>

definition all_present :: "filesystem \<Rightarrow> bool" where
  "all_present fs =
     list_all (path_exists fs)
       ([''.env'', ''nginx_ssl'', ''nginx_ssl/fullchain.pem'', ''nginx_ssl/privkey.pem'']
        @ required_files @ required_dirs @ [''.gitignore'', ''build_secure.py''])"

text \<open>No pattern of \<^verbatim>\<open>weak_patterns\<close> occurs in the text, in any letter case.\<close>

definition no_weak_patterns :: "string \<Rightarrow> bool" where
  "no_weak_patterns c =
     list_all (\<lambda>(var, pattern). \<not> str_in (lower pattern) (lower c)) weak_patterns"

section \<open>Example working directories\<close>



definition fs_two_files :: filesystem where
  "fs_two_files =
     [''Dockerfile.prod'' \<mapsto> File 33188 [], ''nginx.prod.conf'' \<mapsto> File 33188 []]"



definition env_insecure :: string where
  "env_insecure = ''Secret_Key=Django-INSECURE-xyz\<newline>''"

definition fs_insecure :: filesystem where
  "fs_insecure = [''.env'' \<mapsto> File 33152 env_insecure]"

definition env_good :: string where
  "env_good =
     ''SECRET_KEY=q8Zr1vN4\<newline>DB_PASSWORD=w7Lk2xT9\<newline>DB_NAME=maternal\<newline>'' @
     ''DB_USER=app\<newline>ALLOWED_HOSTS=example.org\<newline>DEBUG=False\<newline>'' @
     ''DJANGO_ENV=production\<newline>''"

definition gitignore_good :: string where
  "gitignore_good = ''.env\<newline>*.pem\<newline>*.key\<newline>db_backups\<newline>logs\<newline>''"

definition conf_good :: string where
  "conf_good =
     ''add_header X-Frame-Options DENY;\<newline>add_header X-Content-Type-Options nosniff;\<newline>'' @
     ''add_header X-XSS-Protection 1;\<newline>add_header Strict-Transport-Security max-age;\<newline>''"

definition fs_good :: filesystem where
  "fs_good =
     [''.env'' \<mapsto> File 33152 env_good,
      ''nginx_ssl'' \<mapsto> Dir 16877,
      ''nginx_ssl/fullchain.pem'' \<mapsto> File 33188 [],
      ''nginx_ssl/privkey.pem'' \<mapsto> File 33152 [],
      ''Dockerfile.prod'' \<mapsto> File 33188 [],
      ''docker-compose.prod.yml'' \<mapsto> File 33188 [],
      ''entrypoint.prod.sh'' \<mapsto> File 33261 [],
      ''nginx.prod.conf'' \<mapsto> File 33188 conf_good,
      ''logs'' \<mapsto> Dir 16877,
      ''db_backups'' \<mapsto> Dir 16877,
      ''.gitignore'' \<mapsto> File 33188 gitignore_good,
      ''build_secure.py'' \<mapsto> File 33188 []]"

text \<open>The same with \<^verbatim>\<open>.env\<close> in mode \<open>0o100644\<close>, as a new file has it.\<close>

definition fs_env_644 :: filesystem where
  "fs_env_644 = fs_good(''.env'' \<mapsto> File 33188 env_good)"

text \<open>The same with a directory in the place of \<^verbatim>\<open>nginx.prod.conf\<close>.\<close>

definition fs_conf_dir :: filesystem where
  "fs_conf_dir = fs_good(''nginx.prod.conf'' \<mapsto> Dir 16877)"


section \<open>Facts about the string functions\<close>

text \<open>
  \<open>str_in\<close> is the substring relation: \<open>p\<close> is in \<open>s\<close> exactly when \<open>s\<close> is some text,
  then \<open>p\<close>, then some text.
\<close>

lemma starts_with_iff: "starts_with p s \<longleftrightarrow> (\<exists>b. s = p @ b)"
  by (induction p s rule: starts_with.induct) auto

lemma str_in_iff: "str_in p s \<longleftrightarrow> (\<exists>a b. s = a @ p @ b)"
proof (induction s)
  case Nil
  then show ?case by auto
next
  case (Cons c cs)
  have "(\<exists>a b. c # cs = a @ p @ b) \<longleftrightarrow> (\<exists>b. c # cs = p @ b) \<or> (\<exists>a b. cs = a @ p @ b)"
    by (auto simp: Cons_eq_append_conv)
  with Cons show ?case by (simp add: starts_with_iff)
qed

lemma lower_append: "lower (a @ b) = lower a @ lower b"
  by (simp add: lower_def)

lemma str_in_lower: "str_in p s \<Longrightarrow> str_in (lower p) (lower s)"
  unfolding str_in_iff by (metis lower_append)

lemma oct_digits_last: "oct_digits n \<noteq> [] \<and> last (oct_digits n) = digit_char (n mod 8)"
  by (induction n rule: oct_digits.induct) (subst oct_digits.simps, simp)+

lemma length_oct: "3 \<le> length (oct n)"
proof -
  have "oct_digits n \<noteq> []" by (simp add: oct_digits_last)
  then have "1 \<le> length (oct_digits n)" by (cases "oct_digits n") auto
  then show ?thesis by (simp add: oct_def)
qed

lemma last3_nth2: "3 \<le> length s \<Longrightarrow> last3 s ! 2 = last s"
proof -
  assume a: "3 \<le> length s"
  then have "s \<noteq> []" by auto
  moreover from a have "length s - 3 + 2 = length s - 1" by arith
  ultimately show ?thesis using a by (simp add: last3_def last_conv_nth del: One_nat_def)
qed

lemma length_last3: "3 \<le> length s \<Longrightarrow> length (last3 s) = 3"
  by (simp add: last3_def)

lemma digit_char_zero: "d < 8 \<Longrightarrow> digit_char d = CHR ''0'' \<longleftrightarrow> d = 0"
proof -
  assume d: "d < 8"
  have z: "(of_char CHR ''0'' :: nat) = 48" by simp
  have "digit_char d = CHR ''0'' \<longleftrightarrow> (of_char (digit_char d) :: nat) = of_char CHR ''0''"
    by (simp only: of_char_eq_iff)
  also have "\<dots> \<longleftrightarrow> (48 + d) mod 256 = 48"
    by (simp only: z digit_char_def of_char_of)
  finally show ?thesis using d by simp
qed

lemma perms_digit: "last3 (oct n) ! 2 \<noteq> CHR ''0'' \<longleftrightarrow> n mod 8 \<noteq> 0"
proof -
  have "last3 (oct n) ! 2 = last (oct n)" by (rule last3_nth2) (rule length_oct)
  also have "\<dots> = digit_char (n mod 8)" by (simp add: oct_def oct_digits_last)
  finally show ?thesis by (simp add: digit_char_zero)
qed
lemma str_in_trans: "str_in a b \<Longrightarrow> str_in b c \<Longrightarrow> str_in a c"
  unfolding str_in_iff by (metis append.assoc)

section \<open>Facts about the checks\<close>

text \<open>What the three kinds of update do to each field.\<close>

lemma issue_sel [simp]:
  "issues (issue m s) = issues s @ [m]"
  "warnings (issue m s) = warnings s"
  "checks_passed (issue m s) = checks_passed s"
  "checks_failed (issue m s) = checks_failed s + 1"
  by (simp_all add: issue_def)

lemma warn_sel [simp]:
  "issues (warn m s) = issues s"
  "warnings (warn m s) = warnings s @ [m]"
  "checks_passed (warn m s) = checks_passed s"
  "checks_failed (warn m s) = checks_failed s"
  by (simp_all add: warn_def)

lemma passed_sel [simp]:
  "issues (passed s) = issues s"
  "warnings (passed s) = warnings s"
  "checks_passed (passed s) = checks_passed s + 1"
  "checks_failed (passed s) = checks_failed s"
  by (simp_all add: passed_def)

lemma weak_scan_sel [simp]:
  "issues (weak_scan c ps s) = issues s"
  "checks_passed (weak_scan c ps s) = checks_passed s"
  "checks_failed (weak_scan c ps s) = checks_failed s"
  by (induction c ps s rule: weak_scan.induct; simp)+

lemma weak_scan_warnings:
  "warnings (weak_scan c ps s) =
     warnings s @ map (\<lambda>(var, pattern). weak_msg var)
                    (filter (\<lambda>(var, pattern). str_in (lower pattern) (lower c)) ps)"
  by (induction c ps s rule: weak_scan.induct) simp_all

lemma docker_loop_issues:
  "issues (docker_loop fs fl s) =
     issues s @ map file_msg (filter (\<lambda>f. \<not> path_exists fs f) fl)"
  by (induction fs fl s rule: docker_loop.induct) simp_all

lemma docker_loop_failed:
  "checks_failed (docker_loop fs fl s) =
     checks_failed s + int (length (filter (\<lambda>f. \<not> path_exists fs f) fl))"
  by (induction fs fl s rule: docker_loop.induct) simp_all

lemma docker_loop_passed:
  "checks_passed (docker_loop fs fl s) =
     checks_passed s + int (length (filter (path_exists fs) fl))"
  by (induction fs fl s rule: docker_loop.induct) simp_all

lemma docker_loop_warnings [simp]: "warnings (docker_loop fs fl s) = warnings s"
  by (induction fs fl s rule: docker_loop.induct) simp_all


lemma dir_loop_issues [simp]:
  "issues (fst (dir_loop ds (s, fs))) = issues s"
  "checks_failed (fst (dir_loop ds (s, fs))) = checks_failed s"
  by (induction ds arbitrary: s fs; simp)+




lemma dir_loop_all_present:
  "list_all (path_exists fs) ds \<Longrightarrow>
   dir_loop ds (s, fs) = (s\<lparr>checks_passed := checks_passed s + int (length ds)\<rparr>, fs)"
  by (induction ds arbitrary: s) (simp_all add: passed_def)


section \<open>The security-headers check without its file\<close>

text \<open>
  C8. When \<^verbatim>\<open>nginx.prod.conf\<close> is absent, \<^verbatim>\<open>check_security_headers\<close> returns with
  the checker exactly as it received it: no issue, no warning, both counters as they
  were.
\<close>

theorem headers_skip_absent:
  "\<not> path_exists fs ''nginx.prod.conf'' \<Longrightarrow> check_security_headers fs s = Inr s"
  by (simp add: check_security_headers_def)

theorem headers_skip_absent_witness:
  "\<not> path_exists Map.empty ''nginx.prod.conf''
   \<and> check_security_headers Map.empty SecurityChecker = Inr SecurityChecker"
  using headers_skip_absent [of Map.empty SecurityChecker]
  by (simp add: path_exists_def)

section \<open>The TLS material check\<close>



section \<open>The required-directories check\<close>



section \<open>The required-files check\<close>

lemma file_msg_names_all:
  "\<forall>f\<in>set required_files. \<forall>g\<in>set required_files. str_in f (file_msg g) = (f = g)"
  by (simp add: required_files_def file_msg_def cross_mark_def)

lemma file_msg_names:
  "f \<in> set required_files \<Longrightarrow> g \<in> set required_files \<Longrightarrow> str_in f (file_msg g) \<longleftrightarrow> f = g"
  using file_msg_names_all by blast


lemma str_in_file_msg: "str_in f (file_msg f)"
  unfolding str_in_iff file_msg_def by (metis append_Nil2 append.assoc)

lemma length_filter_eq_distinct:
  "distinct fl \<Longrightarrow> f \<in> set fl \<Longrightarrow> length (filter (\<lambda>g. g = f) fl) = 1"
proof (induction fl)
  case Nil
  then show ?case by simp
next
  case (Cons a fl)
  show ?case
  proof (cases "a = f")
    case True
    with Cons.prems have "filter (\<lambda>g. g = f) fl = []"
      by (auto simp: filter_empty_conv)
    with True show ?thesis by simp
  next
    case False
    with Cons show ?thesis by simp
  qed
qed

lemma filter_names_one:
  assumes "distinct fl" and "f \<in> set fl" and "Q f"
    and "\<And>g. g \<in> set fl \<Longrightarrow> P (h g) \<longleftrightarrow> f = g"
  shows "length (filter P (map h (filter Q fl))) = 1"
proof -
  have "filter P (map h (filter Q fl)) = map h (filter (\<lambda>g. P (h g)) (filter Q fl))"
    by (simp add: filter_map comp_def)
  also have "filter (\<lambda>g. P (h g)) (filter Q fl) = filter (\<lambda>g. g = f) fl"
    unfolding filter_filter using assms(3,4) by (intro filter_cong) auto
  finally have "length (filter P (map h (filter Q fl))) = length (filter (\<lambda>g. g = f) fl)"
    by simp
  also have "\<dots> = 1"
    using assms(1,2) by (rule length_filter_eq_distinct)
  finally show ?thesis .
qed

text \<open>
  C6. \<^verbatim>\<open>check_docker_files\<close> appends one issue for each required file that is
  missing, in the order of the list, and adds one to the failed counter for each of them;
  each required file that is present adds one to the passed counter; no warning is
  appended. The issue of a missing file names that file, and it is the only one of the
  appended issues that does.
\<close>

theorem required_files_check:
  "issues (check_docker_files fs s) =
     issues s @ map file_msg (filter (\<lambda>f. \<not> path_exists fs f) required_files)
   \<and> checks_failed (check_docker_files fs s) =
       checks_failed s + int (length (filter (\<lambda>f. \<not> path_exists fs f) required_files))
   \<and> checks_passed (check_docker_files fs s) =
       checks_passed s + int (length (filter (path_exists fs) required_files))
   \<and> warnings (check_docker_files fs s) = warnings s
   \<and> (\<forall>f \<in> set required_files. \<not> path_exists fs f \<longrightarrow>
        str_in f (file_msg f)
        \<and> length (filter (str_in f)
             (map file_msg (filter (\<lambda>f. \<not> path_exists fs f) required_files))) = 1)"
proof -
  have one: "length (filter (str_in f)
             (map file_msg (filter (\<lambda>f. \<not> path_exists fs f) required_files))) = 1"
    if "f \<in> set required_files" "\<not> path_exists fs f" for f
  proof (rule filter_names_one)
    show "distinct required_files" by (simp add: required_files_def)
    show "f \<in> set required_files" by (rule that)
    show "\<not> path_exists fs f" by (rule that)
    show "str_in f (file_msg g) \<longleftrightarrow> f = g" if "g \<in> set required_files" for g
      using \<open>f \<in> set required_files\<close> that by (rule file_msg_names)
  qed
  have a: "issues (check_docker_files fs s) =
     issues s @ map file_msg (filter (\<lambda>f. \<not> path_exists fs f) required_files)"
    unfolding check_docker_files_def by (rule docker_loop_issues)
  have b: "checks_failed (check_docker_files fs s) =
       checks_failed s + int (length (filter (\<lambda>f. \<not> path_exists fs f) required_files))"
    unfolding check_docker_files_def by (rule docker_loop_failed)
  have c: "checks_passed (check_docker_files fs s) =
       checks_passed s + int (length (filter (path_exists fs) required_files))"
    unfolding check_docker_files_def by (rule docker_loop_passed)
  have d: "warnings (check_docker_files fs s) = warnings s"
    unfolding check_docker_files_def by (rule docker_loop_warnings)
  from a b c d one str_in_file_msg show ?thesis by blast
qed

theorem required_files_check_witness:
  "issues (check_docker_files fs_two_files SecurityChecker) =
     [file_msg ''docker-compose.prod.yml'', file_msg ''entrypoint.prod.sh'']
   \<and> checks_failed (check_docker_files fs_two_files SecurityChecker) = 2
   \<and> checks_passed (check_docker_files fs_two_files SecurityChecker) = 2
   \<and> ''entrypoint.prod.sh'' \<in> set required_files
   \<and> \<not> path_exists fs_two_files ''entrypoint.prod.sh''
   \<and> length (filter (str_in ''entrypoint.prod.sh'')
        [file_msg ''docker-compose.prod.yml'', file_msg ''entrypoint.prod.sh'']) = 1"
proof -
  have e: "path_exists fs_two_files ''Dockerfile.prod''" "\<not> path_exists fs_two_files ''docker-compose.prod.yml''"
    "\<not> path_exists fs_two_files ''entrypoint.prod.sh''" "path_exists fs_two_files ''nginx.prod.conf''"
    by (simp_all add: fs_two_files_def path_exists_def)
  have m: "''entrypoint.prod.sh'' \<in> set required_files"
    by (simp add: required_files_def)
  have f: "filter (\<lambda>f. \<not> path_exists fs_two_files f) required_files =
      [''docker-compose.prod.yml'', ''entrypoint.prod.sh'']"
    "filter (path_exists fs_two_files) required_files = [''Dockerfile.prod'', ''nginx.prod.conf'']"
    using e by (simp_all add: required_files_def)
  from required_files_check [of fs_two_files SecurityChecker] m e(3) show ?thesis
    unfolding f by (simp add: SecurityChecker_def)
qed

section \<open>Facts about the environment check and the run\<close>

text \<open>
  \<^verbatim>\<open>oct\<close> always gives three characters or more, so \<^verbatim>\<open>perms[2]\<close> never raises, and
  it is the last octal digit of the mode.
\<close>

lemma perms_length: "\<not> length (last3 (oct n)) \<le> 2"
  by (simp add: length_last3 length_oct)

lemma check_env_file_File:
  assumes "fs ''.env'' = Some (File m c)"
  shows "check_env_file fs s =
    Inr (weak_scan c weak_patterns
      (let s1 = (if m mod 8 \<noteq> 0 then warn world_readable_msg s else s) in
       if missing_vars c required_vars \<noteq> []
       then issue (missing_vars_msg (missing_vars c required_vars)) s1
       else passed s1))"
  using assms
  by (simp add: check_env_file_def path_exists_def st_mode_def read_text_def perms_length
      perms_digit Let_def)

lemma check_env_file_Dir:
  assumes "fs ''.env'' = Some (Dir m)"
  shows "check_env_file fs s =
    Inl (IsADirectoryError, if m mod 8 \<noteq> 0 then warn world_readable_msg s else s)"
  using assms
  by (simp add: check_env_file_def path_exists_def st_mode_def read_text_def perms_length
      perms_digit Let_def)

lemma check_env_file_absent:
  "fs ''.env'' = None \<Longrightarrow> check_env_file fs s = Inr (issue env_missing_msg s)"
  by (simp add: check_env_file_def path_exists_def)

lemma weak_scan_fires:
  "(var, pattern) \<in> set ps \<Longrightarrow> str_in (lower pattern) (lower c) \<Longrightarrow>
   weak_msg var \<in> set (warnings (weak_scan c ps s))"
  by (force simp: weak_scan_warnings)

text \<open>
  A property that holds of the checker after \<^verbatim>\<open>check_env_file\<close> and that each later
  check keeps holds of the checker at the end of the run, however the run ends.
\<close>

lemma main_after_env:
  assumes "check_env_file fs SecurityChecker = Inr s1"
  shows "main fs =
    (case check_gitignore
            (snd (check_directory_structure
                    (check_docker_files fs (check_ssl_certificates fs s1), fs)))
            (fst (check_directory_structure
                    (check_docker_files fs (check_ssl_certificates fs s1), fs))) of
       Inl x \<Rightarrow> Inl x
     | Inr s5 \<Rightarrow>
       (case check_security_headers
               (snd (check_directory_structure
                       (check_docker_files fs (check_ssl_certificates fs s1), fs)))
               (check_python_compiled
                  (snd (check_directory_structure
                          (check_docker_files fs (check_ssl_certificates fs s1), fs)))
                  s5) of
          Inl x \<Rightarrow> Inl x
        | Inr s7 \<Rightarrow>
            Inr (print_summary s7, s7,
                 snd (check_directory_structure
                        (check_docker_files fs (check_ssl_certificates fs s1), fs)))))"
  unfolding main_def
  by (simp add: assms Let_def case_prod_beta split: sum.splits)

lemma final_checker_after_files:
  assumes "check_env_file fs SecurityChecker = Inr s1"
    and "Q (check_docker_files fs (check_ssl_certificates fs s1))"
    and "\<And>f s. Q s \<Longrightarrow> Q (fst (check_directory_structure (s, f)))"
    and "\<And>f s. Q s \<Longrightarrow> Q (checker_of (check_gitignore f s))"
    and "\<And>f s. Q s \<Longrightarrow> Q (check_python_compiled f s)"
    and "\<And>f s. Q s \<Longrightarrow> Q (checker_of (check_security_headers f s))"
  shows "Q (final_checker fs)"
proof -
  define r where
    "r = check_directory_structure (check_docker_files fs (check_ssl_certificates fs s1), fs)"
  have q4: "Q (fst r)" unfolding r_def using assms(2) by (rule assms(3))
  note m = main_after_env [OF assms(1), folded r_def]
  show ?thesis
  proof (cases "check_gitignore (snd r) (fst r)")
    case (Inl x)
    with assms(4) [OF q4, of "snd r"] show ?thesis
      by (simp add: final_checker_def m checker_of_def split: prod.splits)
  next
    case g: (Inr s5)
    with assms(4) [OF q4, of "snd r"] have "Q s5" by (simp add: checker_of_def)
    then have q6: "Q (check_python_compiled (snd r) s5)" by (rule assms(5))
    show ?thesis
      using assms(6) [OF q6, of "snd r"]
      by (cases "check_security_headers (snd r) (check_python_compiled (snd r) s5)")
         (simp_all add: final_checker_def m g checker_of_def split: prod.splits)
  qed
qed

lemma final_checker_later:
  assumes "Q (checker_of (check_env_file fs SecurityChecker))"
    and "\<And>f s. Q s \<Longrightarrow> Q (check_ssl_certificates f s)"
    and "\<And>f s. Q s \<Longrightarrow> Q (check_docker_files f s)"
    and "\<And>f s. Q s \<Longrightarrow> Q (fst (check_directory_structure (s, f)))"
    and "\<And>f s. Q s \<Longrightarrow> Q (checker_of (check_gitignore f s))"
    and "\<And>f s. Q s \<Longrightarrow> Q (check_python_compiled f s)"
    and "\<And>f s. Q s \<Longrightarrow> Q (checker_of (check_security_headers f s))"
  shows "Q (final_checker fs)"
proof (cases "check_env_file fs SecurityChecker")
  case (Inl x)
  with assms(1) show ?thesis
    by (simp add: final_checker_def main_def checker_of_def split: prod.splits)
next
  case (Inr s1)
  with assms(1) have "Q s1" by (simp add: checker_of_def)
  then have "Q (check_docker_files fs (check_ssl_certificates fs s1))"
    by (intro assms(2,3))
  with Inr show ?thesis
    by (rule final_checker_after_files) (rule assms(4-7); assumption)+
qed

section \<open>The weak-value scan\<close>

text \<open>No check removes a warning.\<close>

lemma keeps_warning_ssl:
  "w \<in> set (warnings s) \<Longrightarrow> w \<in> set (warnings (check_ssl_certificates f s))"
  by (simp add: check_ssl_certificates_def Let_def)

lemma keeps_warning_docker:
  "w \<in> set (warnings s) \<Longrightarrow> w \<in> set (warnings (check_docker_files f s))"
  by (simp add: check_docker_files_def)

lemma keeps_warning_dir_loop:
  "w \<in> set (warnings s) \<Longrightarrow> w \<in> set (warnings (fst (dir_loop ds (s, f))))"
  by (induction ds arbitrary: s f) simp_all

lemma keeps_warning_dir:
  "w \<in> set (warnings s) \<Longrightarrow> w \<in> set (warnings (fst (check_directory_structure (s, f))))"
  by (simp add: check_directory_structure_def keeps_warning_dir_loop)

lemma keeps_warning_gitignore:
  "w \<in> set (warnings s) \<Longrightarrow> w \<in> set (warnings (checker_of (check_gitignore f s)))"
  by (simp add: check_gitignore_def read_text_def path_exists_def checker_of_def Let_def
      split: option.splits node.splits)

lemma keeps_warning_python:
  "w \<in> set (warnings s) \<Longrightarrow> w \<in> set (warnings (check_python_compiled f s))"
  by (simp add: check_python_compiled_def)

lemma keeps_warning_headers:
  "w \<in> set (warnings s) \<Longrightarrow> w \<in> set (warnings (checker_of (check_security_headers f s)))"
  by (simp add: check_security_headers_def read_text_def path_exists_def checker_of_def Let_def
      split: option.splits node.splits)

text \<open>
  C7. When \<^verbatim>\<open>.env\<close> is a file whose text contains
  \<^verbatim>\<open>SECRET_KEY=django-insecure-xyz\<close> in any mix of upper and lower case,
  \<^verbatim>\<open>check_env_file\<close> returns with the warning
  \<^verbatim>\<open>Possible weak/default value for SECRET_KEY\<close> among its warnings; the warning
  names \<^verbatim>\<open>SECRET_KEY\<close>, and it is still among the warnings when the run ends.
\<close>

theorem secret_key_warning:
  assumes "fs ''.env'' = Some (File m c)"
    and "str_in (lower ''SECRET_KEY=django-insecure-xyz'') (lower c)"
  shows "(\<exists>s'. check_env_file fs s = Inr s' \<and> weak_msg ''SECRET_KEY'' \<in> set (warnings s'))
    \<and> str_in ''SECRET_KEY'' (weak_msg ''SECRET_KEY'')
    \<and> weak_msg ''SECRET_KEY'' \<in> set (warnings (final_checker fs))"
proof -
  have "str_in (lower ''django-insecure'') (lower ''SECRET_KEY=django-insecure-xyz'')"
    by code_simp
  then have hit: "str_in (lower ''django-insecure'') (lower c)"
    using assms(2) by (rule str_in_trans)
  have mem: "(''SECRET_KEY'', ''django-insecure'') \<in> set weak_patterns"
    by (simp add: weak_patterns_def)
  have w: "weak_msg ''SECRET_KEY'' \<in> set (warnings (checker_of (check_env_file fs s)))" for s
    unfolding check_env_file_File [of fs m c, OF assms(1)] checker_of_def
    using mem hit by (simp add: weak_scan_fires)
  have 1: "\<exists>s'. check_env_file fs s = Inr s' \<and> weak_msg ''SECRET_KEY'' \<in> set (warnings s')"
    using w [of s] unfolding check_env_file_File [of fs m c, OF assms(1)] checker_of_def by simp
  have 2: "str_in ''SECRET_KEY'' (weak_msg ''SECRET_KEY'')"
    unfolding str_in_iff weak_msg_def by (metis append_Nil2 append.assoc)
  have 3: "weak_msg ''SECRET_KEY'' \<in> set (warnings (final_checker fs))"
    by (rule final_checker_later [where Q = "\<lambda>s. weak_msg ''SECRET_KEY'' \<in> set (warnings s)"])
       (rule w keeps_warning_ssl keeps_warning_docker keeps_warning_dir
         keeps_warning_gitignore keeps_warning_python keeps_warning_headers; assumption?)+
  from 1 2 3 show ?thesis by blast
qed

theorem secret_key_warning_witness:
  "fs_insecure ''.env'' = Some (File 33152 env_insecure)
   \<and> str_in (lower ''SECRET_KEY=django-insecure-xyz'') (lower env_insecure)
   \<and> weak_msg ''SECRET_KEY'' \<in> set (warnings (final_checker fs_insecure))"
proof -
  have a: "fs_insecure ''.env'' = Some (File 33152 env_insecure)"
    by (simp add: fs_insecure_def)
  have b: "str_in (lower ''SECRET_KEY=django-insecure-xyz'') (lower env_insecure)"
    by code_simp
  from secret_key_warning [of fs_insecure 33152 env_insecure SecurityChecker, OF a b] a b
  show ?thesis by blast
qed


section \<open>The failed counter and the issues list\<close>

lemma agree_issue: "counts_agree s \<Longrightarrow> counts_agree (issue m s)"
  by (simp add: counts_agree_def)

lemma agree_warn: "counts_agree s \<Longrightarrow> counts_agree (warn m s)"
  by (simp add: counts_agree_def)

lemma agree_passed: "counts_agree s \<Longrightarrow> counts_agree (passed s)"
  by (simp add: counts_agree_def)

lemma agree_weak_scan: "counts_agree s \<Longrightarrow> counts_agree (weak_scan c ps s)"
  by (simp add: counts_agree_def)

lemma agree_env:
  assumes "counts_agree s"
  shows "counts_agree (checker_of (check_env_file fs s))"
proof (cases "fs ''.env''")
  case None
  with assms show ?thesis
    by (simp add: check_env_file_absent checker_of_def agree_issue)
next
  case (Some n)
  show ?thesis
  proof (cases n)
    case (File m c)
    with Some have "fs ''.env'' = Some (File m c)" by simp
    then show ?thesis
      using assms
      by (simp add: check_env_file_File [of fs m c] checker_of_def Let_def
          agree_weak_scan agree_issue agree_warn agree_passed)
  next
    case (Dir m)
    with Some have "fs ''.env'' = Some (Dir m)" by simp
    then show ?thesis
      using assms
      by (simp add: check_env_file_Dir [of fs m] checker_of_def agree_warn)
  qed
qed

lemma agree_ssl: "counts_agree s \<Longrightarrow> counts_agree (check_ssl_certificates fs s)"
  by (simp add: check_ssl_certificates_def Let_def agree_issue agree_warn agree_passed)

lemma agree_docker_loop: "counts_agree s \<Longrightarrow> counts_agree (docker_loop fs fl s)"
  by (induction fs fl s rule: docker_loop.induct) (simp_all add: agree_issue agree_passed)

lemma agree_docker: "counts_agree s \<Longrightarrow> counts_agree (check_docker_files fs s)"
  by (simp add: check_docker_files_def agree_docker_loop)

lemma agree_dir:
  "counts_agree s \<Longrightarrow> counts_agree (fst (check_directory_structure (s, fs)))"
  by (simp add: check_directory_structure_def counts_agree_def)

lemma agree_gitignore:
  "counts_agree s \<Longrightarrow> counts_agree (checker_of (check_gitignore fs s))"
  by (simp add: check_gitignore_def read_text_def path_exists_def checker_of_def Let_def
      agree_warn agree_passed split: option.splits node.splits)

lemma agree_python: "counts_agree s \<Longrightarrow> counts_agree (check_python_compiled fs s)"
  by (simp add: check_python_compiled_def agree_warn agree_passed)

lemma agree_headers:
  "counts_agree s \<Longrightarrow> counts_agree (checker_of (check_security_headers fs s))"
  by (simp add: check_security_headers_def read_text_def path_exists_def checker_of_def
      Let_def agree_warn agree_passed split: option.splits node.splits)

lemma agree_init: "counts_agree SecurityChecker"
  by (simp add: counts_agree_def SecurityChecker_def)

lemma agree_final: "counts_agree (final_checker fs)"
  by (rule final_checker_later [where Q = counts_agree])
     (rule agree_env agree_init agree_ssl agree_docker agree_dir agree_gitignore
       agree_python agree_headers; assumption?)+

text \<open>
  C9. Each of the seven checks, started on a checker whose failed counter is the length
  of its issues list, leaves a checker of which that holds again, also when it raises;
  so it holds when the run ends. The updates behind this: recording an issue appends one
  issue and adds one to the failed counter; appending a warning changes neither counter
  and no issue; counting a pass changes neither the issues nor the failed counter.
\<close>

theorem failed_counter_invariant:
  assumes "counts_agree s"
  shows "counts_agree (checker_of (check_env_file fs s))
    \<and> counts_agree (check_ssl_certificates fs s)
    \<and> counts_agree (check_docker_files fs s)
    \<and> counts_agree (fst (check_directory_structure (s, fs)))
    \<and> counts_agree (checker_of (check_gitignore fs s))
    \<and> counts_agree (check_python_compiled fs s)
    \<and> counts_agree (checker_of (check_security_headers fs s))
    \<and> counts_agree (final_checker fs)
    \<and> issues (issue m s) = issues s @ [m] \<and> checks_failed (issue m s) = checks_failed s + 1
    \<and> issues (warn m s) = issues s \<and> checks_failed (warn m s) = checks_failed s
    \<and> checks_passed (warn m s) = checks_passed s
    \<and> issues (passed s) = issues s \<and> checks_failed (passed s) = checks_failed s"
  using assms
  by (simp add: agree_env agree_ssl agree_docker agree_dir agree_gitignore agree_python
      agree_headers agree_final)

theorem failed_counter_invariant_witness:
  "counts_agree SecurityChecker
   \<and> counts_agree (check_docker_files fs_two_files SecurityChecker)
   \<and> checks_failed (check_docker_files fs_two_files SecurityChecker) = 2
   \<and> length (issues (check_docker_files fs_two_files SecurityChecker)) = 2
   \<and> counts_agree (final_checker fs_two_files)"
proof -
  have a: "counts_agree SecurityChecker"
    by (simp add: counts_agree_def SecurityChecker_def)
  have e: "path_exists fs_two_files ''Dockerfile.prod''"
    "\<not> path_exists fs_two_files ''docker-compose.prod.yml''"
    "\<not> path_exists fs_two_files ''entrypoint.prod.sh''"
    "path_exists fs_two_files ''nginx.prod.conf''"
    by (simp_all add: fs_two_files_def path_exists_def)
  have "checks_failed (check_docker_files fs_two_files SecurityChecker) = 2"
    "length (issues (check_docker_files fs_two_files SecurityChecker)) = 2"
    using e
    by (simp_all add: check_docker_files_def required_files_def SecurityChecker_def)
  with failed_counter_invariant [OF a, of fs_two_files] a show ?thesis by simp
qed

section \<open>Facts about whole runs\<close>

text \<open>
  A run on a working directory in which everything up to the security-headers check is in
  order reaches that check with twelve passes, no issue, and at most the warning about
  the mode of \<^verbatim>\<open>.env\<close>.
\<close>

lemma weak_scan_none:
  "list_all (\<lambda>(var, pattern). \<not> str_in (lower pattern) (lower c)) ps \<Longrightarrow>
   weak_scan c ps s = s"
  by (induction c ps s rule: weak_scan.induct) simp_all

lemma docker_loop_all_present:
  "list_all (path_exists fs) fl \<Longrightarrow>
   docker_loop fs fl s = s\<lparr>checks_passed := checks_passed s + int (length fl)\<rparr>"
  by (induction fs fl s rule: docker_loop.induct) (simp_all add: passed_def)

lemma all_present_parts:
  assumes "all_present fs"
  shows "path_exists fs ''.env''" "path_exists fs ''nginx_ssl''"
    "path_exists fs ''nginx_ssl/fullchain.pem''" "path_exists fs ''nginx_ssl/privkey.pem''"
    "list_all (path_exists fs) required_files" "list_all (path_exists fs) required_dirs"
    "path_exists fs ''.gitignore''" "path_exists fs ''build_secure.py''"
  using assms by (simp_all add: all_present_def)

lemma main_upto_headers:
  assumes "all_present fs"
    and "fs ''.env'' = Some (File m c)"
    and "missing_vars c required_vars = []"
    and "no_weak_patterns c"
    and "fs ''.gitignore'' = Some (File mg g)"
    and "missing_in g sensitive_patterns = []"
  shows "main fs =
    (case check_security_headers fs
            \<lparr>issues = [],
             warnings = (if m mod 8 \<noteq> 0 then [world_readable_msg] else []),
             checks_passed = 12, checks_failed = 0\<rparr> of
       Inl x \<Rightarrow> Inl x
     | Inr s7 \<Rightarrow> Inr (print_summary s7, s7, fs))"
proof -
  note p = all_present_parts [OF assms(1)]
  define s1 where "s1 = passed (if m mod 8 \<noteq> 0 then warn world_readable_msg SecurityChecker
                                else SecurityChecker)"
  have env: "check_env_file fs SecurityChecker = Inr s1"
    using assms(3,4)
    by (simp add: check_env_file_File [of fs m c, OF assms(2)] no_weak_patterns_def
        weak_scan_none s1_def)
  have ssl: "check_ssl_certificates fs s1 = passed (passed s1)"
    using p(2,3,4) by (simp add: check_ssl_certificates_def path_join_def)
  have docker: "check_docker_files fs (passed (passed s1)) =
      (passed (passed s1))\<lparr>checks_passed := checks_passed s1 + 6\<rparr>"
    using p(5)
    by (simp add: check_docker_files_def docker_loop_all_present required_files_def)
  have dirs: "check_directory_structure
        ((passed (passed s1))\<lparr>checks_passed := checks_passed s1 + 6\<rparr>, fs) =
      ((passed (passed s1))\<lparr>checks_passed := checks_passed s1 + 9\<rparr>, fs)"
    using p(6)
    by (simp add: check_directory_structure_def dir_loop_all_present required_dirs_def)
  have git: "check_gitignore fs s = Inr (passed s)" for s
    using assms(5,6) by (simp add: check_gitignore_def path_exists_def read_text_def)
  have py: "check_python_compiled fs s = passed s" for s
    using p(8) by (simp add: check_python_compiled_def)
  have s12: "passed (passed ((passed (passed s1))\<lparr>checks_passed := checks_passed s1 + 9\<rparr>)) =
     \<lparr>issues = [],
      warnings = (if m mod 8 \<noteq> 0 then [world_readable_msg] else []),
      checks_passed = 12, checks_failed = 0\<rparr>"
    by (simp add: s1_def passed_def warn_def SecurityChecker_def)
  show ?thesis
    unfolding main_after_env [OF env] ssl docker dirs
    by (simp add: git py s12 split: sum.splits)
qed

lemma headers_ok:
  "fs ''nginx.prod.conf'' = Some (File mn n) \<Longrightarrow> missing_in n security_headers = [] \<Longrightarrow>
   check_security_headers fs s = Inr (passed s)"
  by (simp add: check_security_headers_def path_exists_def read_text_def)

lemma headers_Dir:
  "fs ''nginx.prod.conf'' = Some (Dir mn) \<Longrightarrow>
   check_security_headers fs s = Inl (IsADirectoryError, s)"
  by (simp add: check_security_headers_def path_exists_def read_text_def)

lemma main_Inr_code: "main fs = Inr (code, s, fs') \<Longrightarrow> code = print_summary s"
  by (auto simp: main_def Let_def split: sum.splits prod.splits)

lemma exit_status_final:
  "exit_status fs = (if isl (main fs) then 1 else print_summary (final_checker fs))"
proof (cases "main fs")
  case (Inl x)
  then show ?thesis by (simp add: exit_status_def)
next
  case (Inr y)
  obtain code s fs' where y: "y = (code, s, fs')" by (cases y)
  with Inr main_Inr_code [of fs code s fs'] show ?thesis
    by (simp add: exit_status_def final_checker_def)
qed

lemma print_summary_issues: "print_summary s = (if issues s = [] then 0 else 1)"
  by (simp add: print_summary_def)

text \<open>The example working directories, and the runs on them.\<close>

lemma fs_good_facts:
  "all_present fs_good"
  "fs_good ''.env'' = Some (File 33152 env_good)"
  "fs_good ''.gitignore'' = Some (File 33188 gitignore_good)"
  "fs_good ''nginx.prod.conf'' = Some (File 33188 conf_good)"
  by (simp_all add: fs_good_def all_present_def path_exists_def required_files_def
      required_dirs_def)

lemma fs_env_644_facts:
  "all_present fs_env_644"
  "fs_env_644 ''.env'' = Some (File 33188 env_good)"
  "fs_env_644 ''.gitignore'' = Some (File 33188 gitignore_good)"
  "fs_env_644 ''nginx.prod.conf'' = Some (File 33188 conf_good)"
  by (simp_all add: fs_env_644_def fs_good_def all_present_def path_exists_def
      required_files_def required_dirs_def)

lemma fs_conf_dir_facts:
  "all_present fs_conf_dir"
  "fs_conf_dir ''.env'' = Some (File 33152 env_good)"
  "fs_conf_dir ''.gitignore'' = Some (File 33188 gitignore_good)"
  "fs_conf_dir ''nginx.prod.conf'' = Some (Dir 16877)"
  by (simp_all add: fs_conf_dir_def fs_good_def all_present_def path_exists_def
      required_files_def required_dirs_def)

lemma good_texts:
  "missing_vars env_good required_vars = []"
  "no_weak_patterns env_good"
  "missing_in gitignore_good sensitive_patterns = []"
  "missing_in conf_good security_headers = []"
  by code_simp+

lemma main_fs_good:
  "main fs_good =
     Inr (0, \<lparr>issues = [], warnings = [], checks_passed = 13, checks_failed = 0\<rparr>, fs_good)"
  unfolding main_upto_headers [of fs_good 33152 env_good 33188 gitignore_good,
      OF fs_good_facts(1,2) good_texts(1,2) fs_good_facts(3) good_texts(3)]
    headers_ok [of fs_good 33188 conf_good, OF fs_good_facts(4) good_texts(4)]
  by (simp add: passed_def print_summary_def)

lemma main_fs_env_644:
  "main fs_env_644 =
     Inr (0, \<lparr>issues = [], warnings = [world_readable_msg], checks_passed = 13,
              checks_failed = 0\<rparr>, fs_env_644)"
  unfolding main_upto_headers [of fs_env_644 33188 env_good 33188 gitignore_good,
      OF fs_env_644_facts(1,2) good_texts(1,2) fs_env_644_facts(3) good_texts(3)]
    headers_ok [of fs_env_644 33188 conf_good, OF fs_env_644_facts(4) good_texts(4)]
  by (simp add: passed_def print_summary_def)

lemma main_fs_conf_dir:
  "main fs_conf_dir =
     Inl (IsADirectoryError,
          \<lparr>issues = [], warnings = [], checks_passed = 12, checks_failed = 0\<rparr>)"
  unfolding main_upto_headers [of fs_conf_dir 33152 env_good 33188 gitignore_good,
      OF fs_conf_dir_facts(1,2) good_texts(1,2) fs_conf_dir_facts(3) good_texts(3)]
    headers_Dir [of fs_conf_dir 16877, OF fs_conf_dir_facts(4)]
  by simp

section \<open>The run on a working directory in order\<close>




section \<open>Facts about a run without the environment file\<close>

text \<open>
  The last four checks never touch the issues list, and no issue of the second and third
  check mentions \<^verbatim>\<open>.env\<close>.
\<close>

lemma issues_dir [simp]: "issues (fst (check_directory_structure (s, f))) = issues s"
  by (simp add: check_directory_structure_def)

lemma issues_gitignore [simp]: "issues (checker_of (check_gitignore f s)) = issues s"
  by (simp add: check_gitignore_def read_text_def path_exists_def checker_of_def Let_def
      split: option.splits node.splits)

lemma issues_python [simp]: "issues (check_python_compiled f s) = issues s"
  by (simp add: check_python_compiled_def)

lemma issues_headers [simp]: "issues (checker_of (check_security_headers f s)) = issues s"
  by (simp add: check_security_headers_def read_text_def path_exists_def checker_of_def Let_def
      split: option.splits node.splits)

lemma no_env_in_msgs:
  "str_in ''.env'' env_missing_msg"
  "\<not> str_in ''.env'' cert_msg"
  "\<not> str_in ''.env'' key_msg"
  "\<forall>g\<in>set required_files. \<not> str_in ''.env'' (file_msg g)"
  by code_simp+

lemma env_issues_ssl:
  "filter (str_in ''.env'') (issues (check_ssl_certificates f s)) =
   filter (str_in ''.env'') (issues s)"
  by (simp add: check_ssl_certificates_def Let_def no_env_in_msgs)

lemma env_issues_docker:
  "filter (str_in ''.env'') (issues (check_docker_files f s)) =
   filter (str_in ''.env'') (issues s)"
proof -
  have "filter (str_in ''.env'') (map file_msg (filter (\<lambda>g. \<not> path_exists f g) required_files)) = []"
    using no_env_in_msgs(4) by (auto simp: filter_empty_conv)
  then show ?thesis by (simp add: check_docker_files_def docker_loop_issues)
qed

lemma env_absent_final_issues:
  assumes "\<not> path_exists fs ''.env''"
  shows "filter (str_in ''.env'') (issues (final_checker fs)) = [env_missing_msg]"
proof (rule final_checker_later
    [where Q = "\<lambda>s. filter (str_in ''.env'') (issues s) = [env_missing_msg]"])
  show "filter (str_in ''.env'') (issues (checker_of (check_env_file fs SecurityChecker))) =
      [env_missing_msg]"
    using assms
    by (simp add: check_env_file_def checker_of_def SecurityChecker_def no_env_in_msgs)
qed (simp_all add: env_issues_ssl env_issues_docker)





section \<open>The run without the environment file\<close>

lemma fs_two_files_facts:
  "\<not> path_exists fs_two_files ''.env''"
  "\<not> is_dir fs_two_files ''.gitignore''"
  "\<not> is_dir fs_two_files ''nginx.prod.conf''"
  by (simp_all add: fs_two_files_def path_exists_def is_dir_def)





section \<open>The exit status\<close>

text \<open>
  C1, as amended. In every run that ends with \<^verbatim>\<open>main\<close> returning, the exit status is
  0 exactly when the issues list is empty at the end, and it is the value of
  \<^verbatim>\<open>print_summary\<close>, which depends on the issues list alone and not on the warnings.
  In every run, an issues list that is not empty at the end means exit status 1. A run
  that ends with an exception has exit status 1 whatever its issues list.
\<close>

theorem exit_status_rule:
  "(\<not> isl (main fs) \<longrightarrow> (exit_status fs = 0 \<longleftrightarrow> issues (final_checker fs) = []))
   \<and> (issues (final_checker fs) \<noteq> [] \<longrightarrow> exit_status fs = 1)
   \<and> (isl (main fs) \<longrightarrow> exit_status fs = 1)
   \<and> (main fs = Inr (code, s', fs') \<longrightarrow> code = print_summary s' \<and> exit_status fs = code)
   \<and> print_summary s = (if issues s = [] then 0 else 1)"
proof -
  have "main fs = Inr (code, s', fs') \<longrightarrow> code = print_summary s' \<and> exit_status fs = code"
    using main_Inr_code [of fs code s' fs'] by (simp add: exit_status_def)
  then show ?thesis
    by (simp add: exit_status_final print_summary_issues)
qed

text \<open>
  The claim as stated fails when a check raises: with a directory in the place of
  \<^verbatim>\<open>nginx.prod.conf\<close> and everything else in order, the run ends in
  \<^verbatim>\<open>check_security_headers\<close> with no issue recorded and the exit status is 1.
\<close>

theorem exit_status_counterexample:
  "issues (final_checker fs_conf_dir) = [] \<and> exit_status fs_conf_dir = 1
   \<and> \<not> (exit_status fs_conf_dir = 0 \<longleftrightarrow> issues (final_checker fs_conf_dir) = [])"
  by (simp add: final_checker_def exit_status_def main_fs_conf_dir)

theorem exit_status_rule_witness:
  "\<not> isl (main fs_good) \<and> exit_status fs_good = 0 \<and> issues (final_checker fs_good) = []
   \<and> \<not> isl (main fs_env_644) \<and> warnings (final_checker fs_env_644) = [world_readable_msg]
   \<and> exit_status fs_env_644 = 0
   \<and> issues (final_checker fs_two_files) \<noteq> [] \<and> exit_status fs_two_files = 1
   \<and> isl (main fs_conf_dir) \<and> exit_status fs_conf_dir = 1"
proof -
  have i: "issues (final_checker fs_two_files) \<noteq> []"
    using env_absent_final_issues [OF fs_two_files_facts(1)] by auto
  have g: "\<not> isl (main fs_good)" "issues (final_checker fs_good) = []"
    by (simp_all add: main_fs_good final_checker_def)
  have e: "\<not> isl (main fs_env_644)" "issues (final_checker fs_env_644) = []"
    "warnings (final_checker fs_env_644) = [world_readable_msg]"
    by (simp_all add: main_fs_env_644 final_checker_def)
  have c: "isl (main fs_conf_dir)"
    by (simp add: main_fs_conf_dir)
  from exit_status_rule [of fs_good] exit_status_rule [of fs_env_644]
    exit_status_rule [of fs_two_files] exit_status_rule [of fs_conf_dir] i g e c
  show ?thesis by simp
qed

end
